theory Spec2Isabelle
  imports Complex_Main "HOL-Library.Log_Nat" "HOL-Library.Monad_Syntax" "HOL-Library.Multiset"
begin

section \<open>Python values\<close>

subsection \<open>Floats\<close>

text \<open>
  The scores of \<^verbatim>\<open>PathogenPredictor\<close> are Python floats, that is IEEE-754 binary64
  numbers. A finite float is modelled by the rational number it denotes. A float literal
  such as \<^verbatim>\<open>0.4\<close> denotes the double nearest to the decimal (\<open>dbl (4 / 10)\<close>), and
  \<^verbatim>\<open>a + b\<close> on floats is the exact sum rounded to the nearest double, ties to even
  (\<open>fadd\<close>). Infinities and NaN are outside this part of the model: every float the
  predictor computes is a sum of a few small constants.
\<close>

definition pow2 :: "int \<Rightarrow> rat" where
  "pow2 e = (if 0 \<le> e then 2 ^ nat e else 1 / 2 ^ nat (- e))"

definition round_half_even :: "rat \<Rightarrow> int" where
  "round_half_even x =
     (let f = \<lfloor>x\<rfloor>; r = x - of_int f
      in if r < 1 / 2 then f else if 1 / 2 < r then f + 1
         else if even f then f else f + 1)"

text \<open>The exponent \<open>e\<close> with \<open>2 ^ e \<le> |x| < 2 ^ (e + 1)\<close>, for \<open>x \<noteq> 0\<close>.\<close>

definition binary_exponent :: "rat \<Rightarrow> int" where
  "binary_exponent x =
     (let (p, q) = quotient_of \<bar>x\<bar>;
          e = bitlen p - bitlen q
      in if pow2 e \<le> \<bar>x\<bar> then e else e - 1)"

text \<open>
  Rounding to binary64: 53 significant bits, the spacing of the subnormal numbers below
  \<open>2 ^ (- 1022)\<close>.
\<close>

definition dbl :: "rat \<Rightarrow> rat" where
  "dbl x =
     (if x = 0 then 0
      else let q = pow2 (max (binary_exponent x) (- 1022) - 52)
           in of_int (round_half_even (x / q)) * q)"

definition fadd :: "rat \<Rightarrow> rat \<Rightarrow> rat" where
  "fadd a b = dbl (a + b)"

subsection \<open>Dynamically typed values and dictionaries\<close>

text \<open>
  \<^verbatim>\<open>diagnosis_data\<close> is a Python dict whose values are not checked by the predictor.
  The values are modelled by the types an entry can reasonably have; an operation that
  raises (always a \<^verbatim>\<open>TypeError\<close> here) returns \<open>None\<close>.
\<close>

datatype pyval =
    PNone
  | PBool bool
  | PInt int
  | PFloat rat
  | PStr string
  | PList "pyval list"

type_synonym pydict = "string \<rightharpoonup> pyval"

text \<open>\<^verbatim>\<open>d.get(key, default)\<close>\<close>

definition dict_get :: "pydict \<Rightarrow> string \<Rightarrow> pyval \<Rightarrow> pyval" where
  "dict_get d k dflt = (case d k of None \<Rightarrow> dflt | Some v \<Rightarrow> v)"

text \<open>The number a value stands for in an order comparison with a number.\<close>

fun as_number :: "pyval \<Rightarrow> rat option" where
  "as_number (PInt i) = Some (of_int i)"
| "as_number (PFloat r) = Some r"
| "as_number (PBool b) = Some (if b then 1 else 0)"
| "as_number PNone = None"
| "as_number (PStr s) = None"
| "as_number (PList xs) = None"

text \<open>\<^verbatim>\<open>lo <= v <= hi\<close>, \<^verbatim>\<open>v >= c\<close> and \<^verbatim>\<open>v > c\<close> for numbers \<open>lo\<close>, \<open>hi\<close>, \<open>c\<close>.\<close>

definition py_between :: "rat \<Rightarrow> pyval \<Rightarrow> rat \<Rightarrow> bool option" where
  "py_between lo v hi = do { x \<leftarrow> as_number v; Some (lo \<le> x \<and> x \<le> hi) }"

definition py_ge :: "pyval \<Rightarrow> rat \<Rightarrow> bool option" where
  "py_ge v c = do { x \<leftarrow> as_number v; Some (c \<le> x) }"

definition py_gt :: "pyval \<Rightarrow> rat \<Rightarrow> bool option" where
  "py_gt v c = do { x \<leftarrow> as_number v; Some (c < x) }"

text \<open>\<^verbatim>\<open>s in t\<close> for two strings: \<open>s\<close> occurs in \<open>t\<close>.\<close>

fun starts_with :: "string \<Rightarrow> string \<Rightarrow> bool" where
  "starts_with [] t = True"
| "starts_with (c # s) [] = False"
| "starts_with (c # s) (x # t) = (c = x \<and> starts_with s t)"

fun contains_str :: "string \<Rightarrow> string \<Rightarrow> bool" where
  "contains_str s [] = (s = [])"
| "contains_str s (x # t) = (starts_with s (x # t) \<or> contains_str s t)"

text \<open>\<^verbatim>\<open>s in v\<close> for a string \<open>s\<close>: membership in a list, substring of a string.\<close>

fun py_in :: "string \<Rightarrow> pyval \<Rightarrow> bool option" where
  "py_in s (PList xs) = Some (PStr s \<in> set xs)"
| "py_in s (PStr t) = Some (contains_str s t)"
| "py_in s PNone = None"
| "py_in s (PBool b) = None"
| "py_in s (PInt i) = None"
| "py_in s (PFloat r) = None"

text \<open>\<^verbatim>\<open>any(symptom in symptoms for symptom in tags)\<close>\<close>

fun any_symptom_in :: "string list \<Rightarrow> pyval \<Rightarrow> bool option" where
  "any_symptom_in [] v = Some False"
| "any_symptom_in (s # ss) v =
     do { b \<leftarrow> py_in s v; if b then Some True else any_symptom_in ss v }"

text \<open>Truth value of a value in a condition.\<close>

fun py_truthy :: "pyval \<Rightarrow> bool" where
  "py_truthy PNone = False"
| "py_truthy (PBool b) = b"
| "py_truthy (PInt i) = (i \<noteq> 0)"
| "py_truthy (PFloat r) = (r \<noteq> 0)"
| "py_truthy (PStr s) = (s \<noteq> [])"
| "py_truthy (PList xs) = (xs \<noteq> [])"

section \<open>Rule-based prediction\<close>

record candidate =
  pathogen :: string
  confidence :: rat

text \<open>The three scoring blocks of \<^verbatim>\<open>_rule_based_prediction\<close>.\<close>

definition blast_score :: "pydict \<Rightarrow> rat option" where
  "blast_score d = do {
     let symptoms = dict_get d ''symptoms'' (PList []);
     let temperature = dict_get d ''temperature'' (PInt 25);
     let humidity = dict_get d ''humidity'' (PInt 80);
     let score = 0;
     b \<leftarrow> any_symptom_in [''leaf spots'', ''neck rot'', ''panicle blast''] symptoms;
     let score = (if b then fadd score (dbl (4 / 10)) else score);
     b \<leftarrow> py_between 20 temperature 30;
     let score = (if b then fadd score (dbl (2 / 10)) else score);
     b \<leftarrow> py_ge humidity 85;
     let score = (if b then fadd score (dbl (2 / 10)) else score);
     let score = (if dict_get d ''growth_stage'' PNone \<in> set [PStr ''Heading'', PStr ''Flowering'']
                  then fadd score (dbl (2 / 10)) else score);
     Some score
   }"

definition blight_score :: "pydict \<Rightarrow> rat option" where
  "blight_score d = do {
     let symptoms = dict_get d ''symptoms'' (PList []);
     let temperature = dict_get d ''temperature'' (PInt 25);
     let humidity = dict_get d ''humidity'' (PInt 80);
     let score = 0;
     b \<leftarrow> any_symptom_in [''sheath blight'', ''lesions'', ''yellowing''] symptoms;
     let score = (if b then fadd score (dbl (4 / 10)) else score);
     b \<leftarrow> py_between 25 temperature 32;
     let score = (if b then fadd score (dbl (2 / 10)) else score);
     b \<leftarrow> py_ge humidity 80;
     let score = (if b then fadd score (dbl (2 / 10)) else score);
     let score = (if dict_get d ''growth_stage'' PNone \<in> set [PStr ''Tillering'', PStr ''Stem elongation'']
                  then fadd score (dbl (2 / 10)) else score);
     Some score
   }"

definition bacterial_score :: "pydict \<Rightarrow> rat option" where
  "bacterial_score d = do {
     let symptoms = dict_get d ''symptoms'' (PList []);
     let temperature = dict_get d ''temperature'' (PInt 25);
     let humidity = dict_get d ''humidity'' (PInt 80);
     let score = 0;
     b \<leftarrow> any_symptom_in [''leaf blight'', ''yellowing'', ''wilting''] symptoms;
     let score = (if b then fadd score (dbl (4 / 10)) else score);
     b \<leftarrow> py_between 25 temperature 34;
     let score = (if b then fadd score (dbl (2 / 10)) else score);
     b \<leftarrow> py_ge humidity 70;
     let score = (if b then fadd score (dbl (2 / 10)) else score);
     b \<leftarrow> py_gt (dict_get d ''rainfall'' (PInt 0)) 10;
     let score = (if b then fadd score (dbl (2 / 10)) else score);
     Some score
   }"

text \<open>
  The list \<^verbatim>\<open>predictions\<close> after the three blocks, before the fallback for an empty
  list is applied.
\<close>

definition rule_candidates :: "pydict \<Rightarrow> candidate list option" where
  "rule_candidates d = do {
     let predictions = [];
     score \<leftarrow> blast_score d;
     let predictions =
       (if dbl (5 / 10) < score
        then predictions @ [\<lparr>pathogen = ''Magnaporthe oryzae'', confidence = min score (dbl (95 / 100))\<rparr>]
        else predictions);
     score \<leftarrow> blight_score d;
     let predictions =
       (if dbl (5 / 10) < score
        then predictions @ [\<lparr>pathogen = ''Rhizoctonia solani'', confidence = min score (dbl (95 / 100))\<rparr>]
        else predictions);
     score \<leftarrow> bacterial_score d;
     let predictions =
       (if dbl (5 / 10) < score
        then predictions @ [\<lparr>pathogen = ''Xanthomonas oryzae'', confidence = min score (dbl (95 / 100))\<rparr>]
        else predictions);
     Some predictions
   }"

definition rule_based_prediction :: "pydict \<Rightarrow> candidate list option" where
  "rule_based_prediction d = do {
     predictions \<leftarrow> rule_candidates d;
     Some (if predictions = [] then
             (if py_truthy (dict_get d ''symptoms'' (PList []))
              then [\<lparr>pathogen = ''Magnaporthe oryzae'', confidence = dbl (6 / 10)\<rparr>]
              else [\<lparr>pathogen = ''Unknown'', confidence = dbl (3 / 10)\<rparr>])
           else predictions)
   }"

section \<open>Knowledge base\<close>

text \<open>
  A knowledge-base entry is a dict with fixed keys of different types, and so is its
  \<^verbatim>\<open>favorable_conditions\<close>. Both are records of optional fields: a key that is
  absent is \<open>None\<close>, and the empty dict \<^verbatim>\<open>{}\<close> has every field \<open>None\<close>.
\<close>

record conditions =
  fc_temperature :: "(rat \<times> rat) option"
  fc_humidity :: "(rat \<times> rat) option"
  fc_rainfall :: "string option"

record pathogen_info =
  kb_common_name :: "string option"
  kb_type :: "string option"
  kb_symptoms :: "string list option"
  kb_favorable_conditions :: "conditions option"
  kb_severity_factors :: "string list option"
  kb_management :: "string list option"

definition empty_conditions :: conditions where
  "empty_conditions = \<lparr>fc_temperature = None, fc_humidity = None, fc_rainfall = None\<rparr>"

definition empty_info :: pathogen_info where
  "empty_info =
     \<lparr>kb_common_name = None, kb_type = None, kb_symptoms = None,
      kb_favorable_conditions = None, kb_severity_factors = None, kb_management = None\<rparr>"

text \<open>Truth value of an entry (\<^verbatim>\<open>if pathogen_info\<close>): the dict has a key.\<close>

definition info_truthy :: "pathogen_info \<Rightarrow> bool" where
  "info_truthy info =
     (kb_common_name info \<noteq> None \<or> kb_type info \<noteq> None \<or> kb_symptoms info \<noteq> None \<or>
      kb_favorable_conditions info \<noteq> None \<or> kb_severity_factors info \<noteq> None \<or>
      kb_management info \<noteq> None)"

definition magnaporthe_info :: pathogen_info where
  "magnaporthe_info =
     \<lparr>kb_common_name = Some ''Rice Blast'',
      kb_type = Some ''Fungal'',
      kb_symptoms = Some [''leaf spots'', ''neck rot'', ''panicle blast''],
      kb_favorable_conditions =
        Some \<lparr>fc_temperature = Some (20, 30), fc_humidity = Some (85, 100),
              fc_rainfall = Some ''high''\<rparr>,
      kb_severity_factors = Some [''growth_stage'', ''variety_susceptibility''],
      kb_management =
        Some [''Use resistant varieties'',
              ''Apply fungicides at early growth stages'',
              ''Improve field drainage'',
              ''Balanced fertilization'']\<rparr>"

definition rhizoctonia_info :: pathogen_info where
  "rhizoctonia_info =
     \<lparr>kb_common_name = Some ''Sheath Blight'',
      kb_type = Some ''Fungal'',
      kb_symptoms = Some [''sheath blight'', ''lesions'', ''yellowing''],
      kb_favorable_conditions =
        Some \<lparr>fc_temperature = Some (25, 32), fc_humidity = Some (80, 100),
              fc_rainfall = Some ''moderate to high''\<rparr>,
      kb_severity_factors = Some [''plant_density'', ''nitrogen_level''],
      kb_management =
        Some [''Reduce plant density'',
              ''Balanced nitrogen application'',
              ''Apply fungicides at tillering stage'',
              ''Improve air circulation'']\<rparr>"

definition xanthomonas_info :: pathogen_info where
  "xanthomonas_info =
     \<lparr>kb_common_name = Some ''Bacterial Leaf Blight'',
      kb_type = Some ''Bacterial'',
      kb_symptoms = Some [''leaf blight'', ''yellowing'', ''wilting''],
      kb_favorable_conditions =
        Some \<lparr>fc_temperature = Some (25, 34), fc_humidity = Some (70, 100),
              fc_rainfall = Some ''high with flooding''\<rparr>,
      kb_severity_factors = Some [''wound_entry'', ''variety_susceptibility''],
      kb_management =
        Some [''Use certified seeds'',
              ''Apply copper-based bactericides'',
              ''Avoid excessive nitrogen'',
              ''Manage water levels'']\<rparr>"

definition pathogen_knowledge :: "string \<rightharpoonup> pathogen_info" where
  "pathogen_knowledge =
     [''Magnaporthe oryzae'' \<mapsto> magnaporthe_info,
      ''Rhizoctonia solani'' \<mapsto> rhizoctonia_info,
      ''Xanthomonas oryzae'' \<mapsto> xanthomonas_info]"

text \<open>\<^verbatim>\<open>self.pathogen_knowledge.get(pathogen, {})\<close>\<close>

definition knowledge_get :: "string \<Rightarrow> pathogen_info" where
  "knowledge_get name = (case pathogen_knowledge name of None \<Rightarrow> empty_info | Some i \<Rightarrow> i)"

section \<open>Risk level, recommendations, action\<close>

definition calculate_risk_level :: "rat \<Rightarrow> pydict \<Rightarrow> pathogen_info \<Rightarrow> string option" where
  "calculate_risk_level conf d info = do {
     let base_risk = conf;
     base_risk \<leftarrow>
       (if info_truthy info \<and> kb_favorable_conditions info \<noteq> None then
          (case kb_favorable_conditions info of
             None \<Rightarrow> Some base_risk
           | Some favorable \<Rightarrow> do {
               let temp = dict_get d ''temperature'' (PInt 25);
               let humidity = dict_get d ''humidity'' (PInt 80);
               base_risk \<leftarrow>
                 (case fc_temperature favorable of
                    None \<Rightarrow> Some base_risk
                  | Some temp_range \<Rightarrow> do {
                      b \<leftarrow> py_between (fst temp_range) temp (snd temp_range);
                      Some (if b then fadd base_risk (dbl (1 / 10)) else base_risk)
                    });
               (case fc_humidity favorable of
                  None \<Rightarrow> Some base_risk
                | Some hum_range \<Rightarrow> do {
                    b \<leftarrow> py_between (fst hum_range) humidity (snd hum_range);
                    Some (if b then fadd base_risk (dbl (1 / 10)) else base_risk)
                  })
             })
        else Some base_risk);
     let severity = dict_get d ''severity'' (PInt 5);
     let affected_area = dict_get d ''affected_area'' (PInt 25);
     b \<leftarrow> py_ge severity 7;
     let base_risk = (if b then fadd base_risk (dbl (1 / 10)) else base_risk);
     b \<leftarrow> py_ge affected_area 50;
     let base_risk = (if b then fadd base_risk (dbl (1 / 10)) else base_risk);
     Some (if dbl (8 / 10) \<le> base_risk then ''High''
           else if dbl (6 / 10) \<le> base_risk then ''Medium''
           else ''Low'')
   }"

definition get_management_recommendations ::
    "string \<Rightarrow> pydict \<Rightarrow> pathogen_info \<Rightarrow> string list option" where
  "get_management_recommendations name d info = do {
     let recs = [];
     let recs =
       (if info_truthy info \<and> kb_management info \<noteq> None
        then (case kb_management info of None \<Rightarrow> recs | Some m \<Rightarrow> recs @ m)
        else recs);
     let growth_stage = dict_get d ''growth_stage'' (PStr ''Tillering'');
     let severity = dict_get d ''severity'' (PInt 5);
     b \<leftarrow> py_ge severity 7;
     let recs =
       (if b then ''Immediate intervention required due to high severity'' # recs else recs);
     let recs =
       (if growth_stage \<in> set [PStr ''Flowering'', PStr ''Grain filling'']
        then recs @ [''Apply protective measures to prevent grain infection'']
        else recs);
     let humidity = dict_get d ''humidity'' (PInt 80);
     b \<leftarrow> py_ge humidity 85;
     let recs =
       (if b then recs @ [''Improve field ventilation to reduce humidity''] else recs);
     Some (take 5 recs)
   }"

definition determine_action :: "string \<Rightarrow> rat \<Rightarrow> string" where
  "determine_action risk conf =
     (if risk = ''High'' \<and> dbl (8 / 10) \<le> conf then ''Immediate Treatment''
      else if risk = ''High'' \<and> dbl (6 / 10) \<le> conf then ''Urgent Monitoring''
      else if risk = ''Medium'' then ''Preventive Action''
      else ''Monitor & Observe'')"

section \<open>Enhanced predictions\<close>

record enhanced_prediction = candidate +
  common_name :: string
  pathogen_type :: string
  risk_level :: string
  action :: string
  recommendations :: "string list"
  favorable_conditions :: conditions
  typical_symptoms :: "string list"

definition enhance_prediction :: "candidate \<Rightarrow> pydict \<Rightarrow> enhanced_prediction option" where
  "enhance_prediction result d = do {
     let name = pathogen result;
     let conf = confidence result;
     let info = knowledge_get name;
     risk \<leftarrow> calculate_risk_level conf d info;
     recs \<leftarrow> get_management_recommendations name d info;
     let act = determine_action risk conf;
     Some \<lparr>pathogen = name,
           confidence = conf,
           common_name = (case kb_common_name info of None \<Rightarrow> name | Some n \<Rightarrow> n),
           pathogen_type = (case kb_type info of None \<Rightarrow> ''Unknown'' | Some t \<Rightarrow> t),
           risk_level = risk,
           action = act,
           recommendations = recs,
           favorable_conditions =
             (case kb_favorable_conditions info of None \<Rightarrow> empty_conditions | Some c \<Rightarrow> c),
           typical_symptoms = (case kb_symptoms info of None \<Rightarrow> [] | Some l \<Rightarrow> l)\<rparr>
   }"

definition fallback_prediction :: "pydict \<Rightarrow> enhanced_prediction list" where
  "fallback_prediction d =
     [\<lparr>pathogen = ''Unknown Pathogen'',
       confidence = dbl (3 / 10),
       common_name = ''Unknown Disease'',
       pathogen_type = ''Unknown'',
       risk_level = ''Medium'',
       action = ''Laboratory Analysis Needed'',
       recommendations =
         [''Submit sample for laboratory analysis'',
          ''Monitor field conditions closely'',
          ''Apply general fungicide as precaution'',
          ''Consult agricultural extension officer''],
       favorable_conditions = empty_conditions,
       typical_symptoms = []\<rparr>]"

text \<open>The loop of \<^verbatim>\<open>predict\<close> over the candidates; it stops at the first exception.\<close>

fun enhance_all :: "candidate list \<Rightarrow> pydict \<Rightarrow> enhanced_prediction list option" where
  "enhance_all [] d = Some []"
| "enhance_all (result # rest) d =
     do { e \<leftarrow> enhance_prediction result d; es \<leftarrow> enhance_all rest d; Some (e # es) }"

text \<open>The body of the \<^verbatim>\<open>try\<close> block of \<^verbatim>\<open>predict\<close>.\<close>

definition predict_body :: "pydict \<Rightarrow> enhanced_prediction list option" where
  "predict_body d = do { predictions \<leftarrow> rule_based_prediction d; enhance_all predictions d }"

text \<open>
  \<^verbatim>\<open>predict\<close>: every exception of the body is caught (and logged), and the fallback
  prediction is returned in its place.
\<close>

definition predict :: "pydict \<Rightarrow> enhanced_prediction list" where
  "predict d = (case predict_body d of Some results \<Rightarrow> results | None \<Rightarrow> fallback_prediction d)"

section \<open>Breeding recommendations\<close>

text \<open>
  \<^verbatim>\<open>get_breeding_recommendations\<close> reads its data frame through pandas, which is not part
  of the repository. The frame is modelled by what the function observes of it: whether
  it is \<^verbatim>\<open>empty\<close>, and the rows of
  \<^verbatim>\<open>groupby('pathogen')['resistance_score'].agg(['mean', 'std', 'count'])\<close>, or \<open>None\<close>
  when pandas raises. A statistic is a float that may be NaN (the standard deviation of
  fewer than two samples), and every order comparison with NaN is false.
\<close>

datatype npfloat = Finite rat | NaN

record stat_row =
  row_pathogen :: string
  row_mean :: npfloat
  row_std :: npfloat
  row_count :: nat

record resistance_data =
  df_empty :: bool
  df_groupby_agg :: "stat_row list option"

record breeding_recommendation =
  br_pathogen :: string
  priority :: string
  recommendation :: string
  current_avg_resistance :: npfloat
  variability :: npfloat

definition np_lt :: "npfloat \<Rightarrow> rat \<Rightarrow> bool" where
  "np_lt x c = (case x of Finite r \<Rightarrow> r < c | NaN \<Rightarrow> False)"

definition np_gt :: "npfloat \<Rightarrow> rat \<Rightarrow> bool" where
  "np_gt x c = (case x of Finite r \<Rightarrow> c < r | NaN \<Rightarrow> False)"

definition notna :: "npfloat \<Rightarrow> bool" where
  "notna x = (case x of Finite r \<Rightarrow> True | NaN \<Rightarrow> False)"

text \<open>
  \<^verbatim>\<open>round(x, 2)\<close> on a numpy float is a library function; its action on a finite
  float is the parameter \<open>round2\<close>, and NaN stays NaN.
\<close>

definition np_round :: "(rat \<Rightarrow> rat) \<Rightarrow> npfloat \<Rightarrow> npfloat" where
  "np_round round2 x = (case x of Finite r \<Rightarrow> Finite (round2 r) | NaN \<Rightarrow> NaN)"

text \<open>The body of the loop over the rows.\<close>

definition breeding_row :: "(rat \<Rightarrow> rat) \<Rightarrow> stat_row \<Rightarrow> breeding_recommendation" where
  "breeding_row round2 stats =
     (let name = row_pathogen stats;
          avg_resistance = row_mean stats;
          var = row_std stats;
          (prio, msg) =
            (if np_lt avg_resistance 4 then
               (''High'', ''Urgent need to develop varieties with higher resistance to '' @ name)
             else if np_lt avg_resistance 6 then
               (''Medium'', ''Improve resistance levels to '' @ name @ '' through selective breeding'')
             else
               (''Low'', ''Maintain current resistance levels to '' @ name));
          msg =
            (if np_gt var 2
             then msg @ '' - Focus on reducing variability between varieties''
             else msg)
      in \<lparr>br_pathogen = name,
          priority = prio,
          recommendation = msg,
          current_avg_resistance = np_round round2 avg_resistance,
          variability = (if notna var then np_round round2 var else Finite 0)\<rparr>)"

definition priority_order :: "string \<rightharpoonup> nat" where
  "priority_order = [''High'' \<mapsto> 1, ''Medium'' \<mapsto> 2, ''Low'' \<mapsto> 3]"

definition priority_rank :: "breeding_recommendation \<Rightarrow> nat" where
  "priority_rank r = (case priority_order (priority r) of None \<Rightarrow> 0 | Some n \<Rightarrow> n)"

text \<open>
  \<^verbatim>\<open>recommendations.sort(key=lambda x: priority_order[x['priority']])\<close>: the key of
  every element is looked up first (a missing key raises \<^verbatim>\<open>KeyError\<close>), then the list
  is sorted by the keys. Python's sort is stable, as \<open>sort_key\<close> is.
\<close>

definition sort_by_priority ::
    "breeding_recommendation list \<Rightarrow> breeding_recommendation list option" where
  "sort_by_priority recs =
     (if list_all (\<lambda>r. priority_order (priority r) \<noteq> None) recs
      then Some (sort_key priority_rank recs)
      else None)"

definition breeding_body ::
    "(rat \<Rightarrow> rat) \<Rightarrow> resistance_data \<Rightarrow> breeding_recommendation list option" where
  "breeding_body round2 data =
     (if df_empty data then Some []
      else do {
        rows \<leftarrow> df_groupby_agg data;
        sort_by_priority (map (breeding_row round2) rows)
      })"

definition get_breeding_recommendations ::
    "(rat \<Rightarrow> rat) \<Rightarrow> resistance_data \<Rightarrow> breeding_recommendation list" where
  "get_breeding_recommendations round2 data =
     (case breeding_body round2 data of Some recs \<Rightarrow> recs | None \<Rightarrow> [])"

section \<open>Well-formed observations and the rules as the specification words them\<close>

text \<open>
  An observation is well formed when its symptoms, if given, are a list, and each of its
  five numeric entries, if given, is a number.
\<close>

definition wf_observation :: "pydict \<Rightarrow> bool" where
  "wf_observation d =
     ((case d ''symptoms'' of None \<Rightarrow> True | Some v \<Rightarrow> (case v of PList xs \<Rightarrow> True | _ \<Rightarrow> False)) \<and>
      list_all (\<lambda>k. case d k of None \<Rightarrow> True | Some v \<Rightarrow> as_number v \<noteq> None)
        [''temperature'', ''humidity'', ''rainfall'', ''severity'', ''affected_area''])"

text \<open>The readings of an observation, with the default of an absent entry.\<close>

definition obs_number :: "pydict \<Rightarrow> string \<Rightarrow> rat \<Rightarrow> rat" where
  "obs_number d k dflt =
     (case d k of None \<Rightarrow> dflt
      | Some v \<Rightarrow> (case as_number v of None \<Rightarrow> dflt | Some x \<Rightarrow> x))"

definition obs_symptoms :: "pydict \<Rightarrow> pyval list" where
  "obs_symptoms d =
     (case d ''symptoms'' of None \<Rightarrow> [] | Some v \<Rightarrow> (case v of PList xs \<Rightarrow> xs | _ \<Rightarrow> []))"

definition has_symptom :: "string list \<Rightarrow> pydict \<Rightarrow> bool" where
  "has_symptom tags d = list_ex (\<lambda>t. PStr t \<in> set (obs_symptoms d)) tags"

definition stage_in :: "string list \<Rightarrow> pydict \<Rightarrow> bool" where
  "stage_in stages d = list_ex (\<lambda>s. d ''growth_stage'' = Some (PStr s)) stages"

text \<open>
  The rule table of the specification: for each pathogen, in evaluation order, its
  conditions with their weights.
\<close>

type_synonym rules = "((pydict \<Rightarrow> bool) \<times> rat) list"

definition magnaporthe_rules :: rules where
  "magnaporthe_rules =
     [(has_symptom [''leaf spots'', ''neck rot'', ''panicle blast''], dbl (4 / 10)),
      (\<lambda>d. 20 \<le> obs_number d ''temperature'' 25 \<and> obs_number d ''temperature'' 25 \<le> 30, dbl (2 / 10)),
      (\<lambda>d. 85 \<le> obs_number d ''humidity'' 80, dbl (2 / 10)),
      (stage_in [''Heading'', ''Flowering''], dbl (2 / 10))]"

definition rhizoctonia_rules :: rules where
  "rhizoctonia_rules =
     [(has_symptom [''sheath blight'', ''lesions'', ''yellowing''], dbl (4 / 10)),
      (\<lambda>d. 25 \<le> obs_number d ''temperature'' 25 \<and> obs_number d ''temperature'' 25 \<le> 32, dbl (2 / 10)),
      (\<lambda>d. 80 \<le> obs_number d ''humidity'' 80, dbl (2 / 10)),
      (stage_in [''Tillering'', ''Stem elongation''], dbl (2 / 10))]"

definition xanthomonas_rules :: rules where
  "xanthomonas_rules =
     [(has_symptom [''leaf blight'', ''yellowing'', ''wilting''], dbl (4 / 10)),
      (\<lambda>d. 25 \<le> obs_number d ''temperature'' 25 \<and> obs_number d ''temperature'' 25 \<le> 34, dbl (2 / 10)),
      (\<lambda>d. 70 \<le> obs_number d ''humidity'' 80, dbl (2 / 10)),
      (\<lambda>d. 10 < obs_number d ''rainfall'' 0, dbl (2 / 10))]"

definition rule_table :: "(string \<times> rules) list" where
  "rule_table =
     [(''Magnaporthe oryzae'', magnaporthe_rules),
      (''Rhizoctonia solani'', rhizoctonia_rules),
      (''Xanthomonas oryzae'', xanthomonas_rules)]"

text \<open>The raw score: the float sum, in rule order, of the weights of the rules that hold.\<close>

definition raw_score :: "rules \<Rightarrow> pydict \<Rightarrow> rat" where
  "raw_score rs d = foldl fadd 0 (map snd (filter (\<lambda>r. fst r d) rs))"

definition spec_candidates :: "pydict \<Rightarrow> candidate list" where
  "spec_candidates d =
     map (\<lambda>(name, rs). \<lparr>pathogen = name, confidence = min (raw_score rs d) (dbl (95 / 100))\<rparr>)
       (filter (\<lambda>(name, rs). dbl (5 / 10) < raw_score rs d) rule_table)"

text \<open>The base risk of the specification: the confidence plus 0.1 for each bonus that holds.\<close>

definition in_range :: "(rat \<times> rat) option \<Rightarrow> rat \<Rightarrow> bool" where
  "in_range r x = (case r of None \<Rightarrow> False | Some (lo, hi) \<Rightarrow> lo \<le> x \<and> x \<le> hi)"

definition profile_range ::
    "pathogen_info \<Rightarrow> (conditions \<Rightarrow> (rat \<times> rat) option) \<Rightarrow> (rat \<times> rat) option" where
  "profile_range info sel =
     (case kb_favorable_conditions info of None \<Rightarrow> None | Some c \<Rightarrow> sel c)"

definition risk_bonuses :: "pydict \<Rightarrow> pathogen_info \<Rightarrow> bool list" where
  "risk_bonuses d info =
     [in_range (profile_range info fc_temperature) (obs_number d ''temperature'' 25),
      in_range (profile_range info fc_humidity) (obs_number d ''humidity'' 80),
      7 \<le> obs_number d ''severity'' 5,
      50 \<le> obs_number d ''affected_area'' 25]"

definition spec_base_risk :: "rat \<Rightarrow> pydict \<Rightarrow> pathogen_info \<Rightarrow> rat" where
  "spec_base_risk conf d info =
     foldl fadd conf (map (\<lambda>b. dbl (1 / 10)) (filter (\<lambda>b. b) (risk_bonuses d info)))"

text \<open>The recommendation list of the specification.\<close>

definition spec_recommendations :: "pydict \<Rightarrow> pathogen_info \<Rightarrow> string list" where
  "spec_recommendations d info =
     take 5
       ((if 7 \<le> obs_number d ''severity'' 5
         then [''Immediate intervention required due to high severity''] else []) @
        (case kb_management info of None \<Rightarrow> [] | Some m \<Rightarrow> m) @
        (if stage_in [''Flowering'', ''Grain filling''] d
         then [''Apply protective measures to prevent grain infection''] else []) @
        (if 85 \<le> obs_number d ''humidity'' 80
         then [''Improve field ventilation to reduce humidity''] else []))"

section \<open>Example observations\<close>


text \<open>Two pathogens qualify, the second with the higher confidence.\<close>

definition two_candidates_observation :: pydict where
  "two_candidates_observation =
     [''symptoms'' \<mapsto> PList [PStr ''leaf spots'', PStr ''leaf blight''],
      ''temperature'' \<mapsto> PFloat 28,
      ''humidity'' \<mapsto> PInt 75,
      ''rainfall'' \<mapsto> PFloat 15]"

text \<open>Only a symptom that no rule knows; every reading is at its default.\<close>

definition unmatched_symptom_observation :: pydict where
  "unmatched_symptom_observation = [''symptoms'' \<mapsto> PList [PStr ''stunting'']]"


text \<open>All four risk bonuses hold for rice blast.\<close>

definition severe_humid_observation :: pydict where
  "severe_humid_observation =
     [''temperature'' \<mapsto> PInt 25,
      ''humidity'' \<mapsto> PInt 90,
      ''severity'' \<mapsto> PInt 8,
      ''affected_area'' \<mapsto> PInt 60,
      ''growth_stage'' \<mapsto> PStr ''Flowering'']"

text \<open>Entries of the wrong type: the first fails in scoring, the second in enhancement.\<close>

definition ill_typed_temperature :: pydict where
  "ill_typed_temperature = [''symptoms'' \<mapsto> PList [PStr ''leaf spots''], ''temperature'' \<mapsto> PStr ''warm'']"

definition ill_typed_severity :: pydict where
  "ill_typed_severity = [''severity'' \<mapsto> PStr ''severe'']"

section \<open>The breeding rule as the specification words it, and example frames\<close>

text \<open>The suffix of the message: present when the standard deviation is above 2.\<close>

definition variability_suffix :: "npfloat \<Rightarrow> string" where
  "variability_suffix sd =
     (case sd of
        Finite v \<Rightarrow> if 2 < v then '' - Focus on reducing variability between varieties'' else []
      | NaN \<Rightarrow> [])"

text \<open>A row with a finite mean, and two aggregates; the first is the example of the specification.\<close>

definition stat :: "string \<Rightarrow> rat \<Rightarrow> npfloat \<Rightarrow> nat \<Rightarrow> stat_row" where
  "stat name m sd n = \<lparr>row_pathogen = name, row_mean = Finite m, row_std = sd, row_count = n\<rparr>"


definition example_frame :: resistance_data where
  "example_frame =
     \<lparr>df_empty = False,
      df_groupby_agg =
        Some [stat ''C'' 8 (Finite 1) 4, stat ''A'' 3 (Finite (5 / 2)) 4, stat ''B'' 5 NaN 1,
              stat ''D'' 7 (Finite 0) 2, stat ''E'' 2 NaN 1]\<rparr>"

section \<open>Auxiliary facts\<close>

subsection \<open>The float constants\<close>

text \<open>The doubles that the literals of the source denote, found by evaluation.\<close>

lemma dbl_values:
  "dbl (1 / 10) = 3602879701896397 / 36028797018963968"
  "dbl (1 / 5) = 3602879701896397 / 18014398509481984"
  "dbl (3 / 10) = 5404319552844595 / 18014398509481984"
  "dbl (2 / 5) = 3602879701896397 / 9007199254740992"
  "dbl (1 / 2) = 1 / 2"
  "dbl (3 / 5) = 5404319552844595 / 9007199254740992"
  "dbl (4 / 5) = 3602879701896397 / 4503599627370496"
  "dbl (19 / 20) = 4278419646001971 / 4503599627370496"
  by code_simp+

subsection \<open>Well-formed observations never raise\<close>

lemma as_number_wf:
  assumes "wf_observation d"
    and "k \<in> set [''temperature'', ''humidity'', ''rainfall'', ''severity'', ''affected_area'']"
  shows "as_number (dict_get d k (PInt n)) = Some (obs_number d k (of_int n))"
  using assms
  by (auto simp: wf_observation_def dict_get_def obs_number_def split: option.splits)

lemma any_symptom_in_list:
  "any_symptom_in tags (PList xs) = Some (list_ex (\<lambda>t. PStr t \<in> set xs) tags)"
  by (induction tags) auto

lemma symptoms_wf:
  assumes "wf_observation d"
  shows "dict_get d ''symptoms'' (PList []) = PList (obs_symptoms d)"
  using assms
  by (auto simp: wf_observation_def dict_get_def obs_symptoms_def split: option.splits pyval.splits)

lemma any_symptom_in_wf:
  assumes "wf_observation d"
  shows "any_symptom_in tags (dict_get d ''symptoms'' (PList [])) = Some (has_symptom tags d)"
  by (simp add: symptoms_wf [OF assms] any_symptom_in_list has_symptom_def)

lemma stage_in_get:
  "stage_in [a, b] d =
     (dict_get d ''growth_stage'' PNone = PStr a \<or> dict_get d ''growth_stage'' PNone = PStr b)"
  by (auto simp: dict_get_def stage_in_def split: option.splits)

lemma py_between_wf:
  assumes "wf_observation d"
    and "k \<in> set [''temperature'', ''humidity'', ''rainfall'', ''severity'', ''affected_area'']"
  shows "py_between lo (dict_get d k (PInt n)) hi =
         Some (lo \<le> obs_number d k (of_int n) \<and> obs_number d k (of_int n) \<le> hi)"
  by (simp add: py_between_def as_number_wf [OF assms])

lemma py_ge_wf:
  assumes "wf_observation d"
    and "k \<in> set [''temperature'', ''humidity'', ''rainfall'', ''severity'', ''affected_area'']"
  shows "py_ge (dict_get d k (PInt n)) c = Some (c \<le> obs_number d k (of_int n))"
  by (simp add: py_ge_def as_number_wf [OF assms])

lemma py_gt_wf:
  assumes "wf_observation d"
    and "k \<in> set [''temperature'', ''humidity'', ''rainfall'', ''severity'', ''affected_area'']"
  shows "py_gt (dict_get d k (PInt n)) c = Some (c < obs_number d k (of_int n))"
  by (simp add: py_gt_def as_number_wf [OF assms])

lemma blast_score_wf:
  assumes "wf_observation d"
  shows "blast_score d = Some (raw_score magnaporthe_rules d)"
  using assms
  by (simp add: blast_score_def raw_score_def magnaporthe_rules_def any_symptom_in_wf
      py_between_wf py_ge_wf stage_in_get Let_def del: any_symptom_in.simps)

lemma blight_score_wf:
  assumes "wf_observation d"
  shows "blight_score d = Some (raw_score rhizoctonia_rules d)"
  using assms
  by (simp add: blight_score_def raw_score_def rhizoctonia_rules_def any_symptom_in_wf
      py_between_wf py_ge_wf stage_in_get Let_def del: any_symptom_in.simps)

lemma bacterial_score_wf:
  assumes "wf_observation d"
  shows "bacterial_score d = Some (raw_score xanthomonas_rules d)"
  using assms
  by (simp add: bacterial_score_def raw_score_def xanthomonas_rules_def any_symptom_in_wf
      py_between_wf py_ge_wf py_gt_wf Let_def del: any_symptom_in.simps)

lemma rule_candidates_wf:
  assumes "wf_observation d"
  shows "rule_candidates d = Some (spec_candidates d)"
  by (simp add: rule_candidates_def spec_candidates_def rule_table_def
      blast_score_wf [OF assms] blight_score_wf [OF assms] bacterial_score_wf [OF assms] Let_def)


lemma calculate_risk_level_wf:
  assumes "wf_observation d"
  shows "calculate_risk_level conf d info =
         Some (let r = spec_base_risk conf d info
               in if dbl (8 / 10) \<le> r then ''High''
                  else if dbl (6 / 10) \<le> r then ''Medium'' else ''Low'')"
proof (cases "kb_favorable_conditions info")
  case None
  then show ?thesis
    using assms
    by (simp add: calculate_risk_level_def spec_base_risk_def risk_bonuses_def profile_range_def
        in_range_def py_ge_wf Let_def)
next
  case (Some favorable)
  then have t: "info_truthy info"
    by (simp add: info_truthy_def)
  show ?thesis
  proof (cases "fc_temperature favorable")
    case None
    note tn = this
    show ?thesis
    proof (cases "fc_humidity favorable")
      case None
      then show ?thesis
        using assms Some t tn
        by (simp add: calculate_risk_level_def spec_base_risk_def risk_bonuses_def
            profile_range_def in_range_def py_ge_wf py_between_wf Let_def)
    next
      case (Some hr)
      then show ?thesis
        using assms \<open>kb_favorable_conditions info = Some favorable\<close> t tn
        by (cases hr) (simp add: calculate_risk_level_def spec_base_risk_def risk_bonuses_def
            profile_range_def in_range_def py_ge_wf py_between_wf Let_def)
    qed
  next
    case (Some tr)
    note ts = this
    show ?thesis
    proof (cases "fc_humidity favorable")
      case None
      then show ?thesis
        using assms \<open>kb_favorable_conditions info = Some favorable\<close> t ts
        by (cases tr) (simp add: calculate_risk_level_def spec_base_risk_def risk_bonuses_def
            profile_range_def in_range_def py_ge_wf py_between_wf Let_def)
    next
      case (Some hr)
      then show ?thesis
        using assms \<open>kb_favorable_conditions info = Some favorable\<close> t ts
        by (cases tr; cases hr) (simp add: calculate_risk_level_def spec_base_risk_def
            risk_bonuses_def profile_range_def in_range_def py_ge_wf py_between_wf Let_def)
    qed
  qed
qed

lemma stage_in_get_default:
  "stage_in [''Flowering'', ''Grain filling''] d =
     (dict_get d ''growth_stage'' (PStr ''Tillering'') = PStr ''Flowering'' \<or>
      dict_get d ''growth_stage'' (PStr ''Tillering'') = PStr ''Grain filling'')"
  by (auto simp: dict_get_def stage_in_def split: option.splits)

lemma get_management_recommendations_wf:
  assumes "wf_observation d"
  shows "get_management_recommendations name d info = Some (spec_recommendations d info)"
  using assms
  by (cases "kb_management info")
    (simp_all add: get_management_recommendations_def spec_recommendations_def info_truthy_def
      py_ge_wf stage_in_get_default Let_def)

lemma get_management_recommendations_length:
  "get_management_recommendations name d info = Some recs \<Longrightarrow> length recs \<le> 5"
  by (auto simp: get_management_recommendations_def Let_def split: bind_splits)



subsection \<open>Enhancement and the shape of the result\<close>

lemma enhance_prediction_fields:
  assumes "enhance_prediction c d = Some e"
  shows "pathogen e = pathogen c \<and> confidence e = confidence c"
  using assms
  by (auto simp: enhance_prediction_def Let_def split: bind_splits)

lemma enhance_prediction_wf:
  assumes "wf_observation d"
  shows "enhance_prediction c d \<noteq> None"
  by (simp add: enhance_prediction_def Let_def calculate_risk_level_wf [OF assms]
      get_management_recommendations_wf [OF assms])

lemma enhance_all_fields:
  "enhance_all cs d = Some es \<Longrightarrow>
     map pathogen es = map pathogen cs \<and> map confidence es = map confidence cs"
proof (induction cs arbitrary: es)
  case Nil
  then show ?case by simp
next
  case (Cons c cs)
  then show ?case
    by (auto split: bind_splits dest: enhance_prediction_fields)
qed

lemma enhance_all_None:
  "enhance_all cs d = None \<longleftrightarrow> (\<exists>c \<in> set cs. enhance_prediction c d = None)"
  by (induction cs) (auto split: bind_splits)

lemma enhance_all_wf:
  assumes "wf_observation d"
  shows "enhance_all cs d \<noteq> None"
  by (simp add: enhance_all_None enhance_prediction_wf [OF assms])

lemma rule_candidates_shape:
  assumes "rule_candidates d = Some cs"
  shows "length cs \<le> 3 \<and> distinct (map pathogen cs)"
  using assms
  by (auto simp: rule_candidates_def Let_def split: bind_splits if_splits)

lemma rule_based_prediction_shape:
  assumes "rule_based_prediction d = Some cs"
  shows "cs \<noteq> [] \<and> length cs \<le> 3 \<and> distinct (map pathogen cs)"
  using assms
  by (auto simp: rule_based_prediction_def split: bind_splits if_splits dest: rule_candidates_shape)

lemma predict_body_shape:
  assumes "predict_body d = Some es"
  shows "es \<noteq> [] \<and> length es \<le> 3 \<and> distinct (map pathogen es)"
proof -
  from assms obtain cs where cs: "rule_based_prediction d = Some cs" "enhance_all cs d = Some es"
    by (auto simp: predict_body_def split: bind_splits)
  from enhance_all_fields [OF cs(2)] have m: "map pathogen es = map pathogen cs" by simp
  then have "length es = length cs" by (metis length_map)
  with rule_based_prediction_shape [OF cs(1)] m show ?thesis by auto
qed

lemma predict_shape:
  "predict d \<noteq> [] \<and> length (predict d) \<le> 3 \<and> distinct (map pathogen (predict d))"
proof (cases "predict_body d")
  case None
  then show ?thesis by (simp add: predict_def fallback_prediction_def)
next
  case (Some es)
  with predict_body_shape [OF Some] show ?thesis by (simp add: predict_def)
qed

lemma predict_wf_candidates:
  assumes "wf_observation d" and "spec_candidates d \<noteq> []"
  shows "map pathogen (predict d) = map pathogen (spec_candidates d) \<and>
         map confidence (predict d) = map confidence (spec_candidates d)"
proof -
  have rb: "rule_based_prediction d = Some (spec_candidates d)"
    using assms by (simp add: rule_based_prediction_def rule_candidates_wf)
  from enhance_all_wf [OF assms(1)] obtain es where es: "enhance_all (spec_candidates d) d = Some es"
    by blast
  then have "predict d = es"
    by (simp add: predict_def predict_body_def rb)
  with enhance_all_fields [OF es] show ?thesis by simp
qed

lemma symptoms_truthy_wf:
  assumes "wf_observation d"
  shows "py_truthy (dict_get d ''symptoms'' (PList [])) = (obs_symptoms d \<noteq> [])"
  by (simp add: symptoms_wf [OF assms])


lemma enhance_prediction_recommendations:
  assumes "enhance_prediction c d = Some e"
  shows "length (recommendations e) \<le> 5"
  using assms
  by (auto simp: enhance_prediction_def Let_def split: bind_splits
      dest: get_management_recommendations_length)

lemma enhance_all_recommendations:
  "enhance_all cs d = Some es \<Longrightarrow> \<forall>e \<in> set es. length (recommendations e) \<le> 5"
proof (induction cs arbitrary: es)
  case Nil
  then show ?case by simp
next
  case (Cons c cs)
  then show ?case
    by (auto split: bind_splits dest: enhance_prediction_recommendations)
qed

lemma predict_recommendations:
  "\<forall>e \<in> set (predict d). length (recommendations e) \<le> 5"
proof (cases "predict_body d")
  case None
  then show ?thesis by (simp add: predict_def fallback_prediction_def)
next
  case (Some es)
  then obtain cs where "enhance_all cs d = Some es"
    by (auto simp: predict_body_def split: bind_splits)
  from enhance_all_recommendations [OF this] Some show ?thesis
    by (simp add: predict_def)
qed

subsection \<open>Breeding recommendations\<close>

lemma priority_rank_breeding_row:
  "priority_order (priority (breeding_row round2 s)) \<noteq> None"
  by (simp add: breeding_row_def priority_order_def Let_def)

lemma sort_by_priority_rows:
  "sort_by_priority (map (breeding_row round2) rows) =
     Some (sort_key priority_rank (map (breeding_row round2) rows))"
  by (simp add: sort_by_priority_def list_all_iff priority_rank_breeding_row)

lemma get_breeding_recommendations_rows:
  assumes "\<not> df_empty data" and "df_groupby_agg data = Some rows"
  shows "get_breeding_recommendations round2 data =
           sort_key priority_rank (map (breeding_row round2) rows)"
  using assms
  by (simp add: get_breeding_recommendations_def breeding_body_def sort_by_priority_rows)


subsection \<open>What \<open>predict\<close> pairs with a high risk\<close>

text \<open>
  A raw score above 0.5 is at least 0.6, the fallback for a non-empty symptom list is at
  0.6, and the candidate \<open>Unknown\<close> at 0.3 has no profile, so that its risk stays
  \<open>Low\<close>. A prediction of \<open>predict\<close> with risk \<open>High\<close> therefore has confidence at
  least 0.6: \<open>predict\<close> itself never pairs \<open>High\<close> with the action
  \<open>Monitor & Observe\<close>.
\<close>

lemma fadd_values:
  "fadd 0 (3602879701896397 / 18014398509481984) = 3602879701896397 / 18014398509481984"
  "fadd 0 (3602879701896397 / 9007199254740992) = 3602879701896397 / 9007199254740992"
  "fadd (3602879701896397 / 18014398509481984) (3602879701896397 / 18014398509481984) =
     3602879701896397 / 9007199254740992"
  "fadd (5404319552844595 / 18014398509481984) (3602879701896397 / 36028797018963968) =
     3602879701896397 / 9007199254740992"
  "fadd (3602879701896397 / 9007199254740992) (3602879701896397 / 36028797018963968) = 1 / 2"
  "fadd (3602879701896397 / 9007199254740992) (3602879701896397 / 18014398509481984) =
     1351079888211149 / 2251799813685248"
  "fadd (1351079888211149 / 2251799813685248) (3602879701896397 / 18014398509481984) =
     3602879701896397 / 4503599627370496"
  "fadd (3602879701896397 / 4503599627370496) (3602879701896397 / 18014398509481984) = 1"
  by code_simp+

lemma score_chain:
  assumes "s = (let s0 = 0;
                    s1 = (if b1 then fadd s0 (dbl (4 / 10)) else s0);
                    s2 = (if b2 then fadd s1 (dbl (2 / 10)) else s1);
                    s3 = (if b3 then fadd s2 (dbl (2 / 10)) else s2)
                in if b4 then fadd s3 (dbl (2 / 10)) else s3)"
    and "dbl (5 / 10) < s"
  shows "dbl (6 / 10) \<le> s"
  using assms
  by (cases b1; cases b2; cases b3; cases b4) (simp_all add: fadd_values dbl_values)

lemma blast_score_threshold:
  assumes "blast_score d = Some s" and "dbl (5 / 10) < s"
  shows "dbl (6 / 10) \<le> s"
proof -
  from assms(1) obtain b1 b2 b3 b4 where
    "s = (let s0 = 0;
              s1 = (if b1 then fadd s0 (dbl (4 / 10)) else s0);
              s2 = (if b2 then fadd s1 (dbl (2 / 10)) else s1);
              s3 = (if b3 then fadd s2 (dbl (2 / 10)) else s2)
          in if b4 then fadd s3 (dbl (2 / 10)) else s3)"
    unfolding blast_score_def Let_def
    by (auto split: bind_splits simp del: any_symptom_in.simps)
  from score_chain [OF this assms(2)] show ?thesis .
qed

lemma blight_score_threshold:
  assumes "blight_score d = Some s" and "dbl (5 / 10) < s"
  shows "dbl (6 / 10) \<le> s"
proof -
  from assms(1) obtain b1 b2 b3 b4 where
    "s = (let s0 = 0;
              s1 = (if b1 then fadd s0 (dbl (4 / 10)) else s0);
              s2 = (if b2 then fadd s1 (dbl (2 / 10)) else s1);
              s3 = (if b3 then fadd s2 (dbl (2 / 10)) else s2)
          in if b4 then fadd s3 (dbl (2 / 10)) else s3)"
    unfolding blight_score_def Let_def
    by (auto split: bind_splits simp del: any_symptom_in.simps)
  from score_chain [OF this assms(2)] show ?thesis .
qed

lemma bacterial_score_threshold:
  assumes "bacterial_score d = Some s" and "dbl (5 / 10) < s"
  shows "dbl (6 / 10) \<le> s"
proof -
  from assms(1) obtain b1 b2 b3 b4 where
    "s = (let s0 = 0;
              s1 = (if b1 then fadd s0 (dbl (4 / 10)) else s0);
              s2 = (if b2 then fadd s1 (dbl (2 / 10)) else s1);
              s3 = (if b3 then fadd s2 (dbl (2 / 10)) else s2)
          in if b4 then fadd s3 (dbl (2 / 10)) else s3)"
    unfolding bacterial_score_def Let_def
    by (auto split: bind_splits simp del: any_symptom_in.simps)
  from score_chain [OF this assms(2)] show ?thesis .
qed

lemma score_thresholds:
  "blast_score d = Some s \<Longrightarrow> dbl (1 / 2) < s \<Longrightarrow> dbl (3 / 5) \<le> s"
  "blight_score d = Some s \<Longrightarrow> dbl (1 / 2) < s \<Longrightarrow> dbl (3 / 5) \<le> s"
  "bacterial_score d = Some s \<Longrightarrow> dbl (1 / 2) < s \<Longrightarrow> dbl (3 / 5) \<le> s"
  using blast_score_threshold [of d s] blight_score_threshold [of d s]
    bacterial_score_threshold [of d s]
  by simp_all

lemma rule_candidates_confidence:
  assumes "rule_candidates d = Some cs" and "c \<in> set cs"
  shows "dbl (6 / 10) \<le> confidence c"
proof -
  have m: "dbl (3 / 5) \<le> dbl (19 / 20)"
    by (simp add: dbl_values)
  from assms(1) obtain b g x where sc: "blast_score d = Some b" "blight_score d = Some g"
    "bacterial_score d = Some x"
    and cs: "cs =
      (if dbl (1 / 2) < b
       then [\<lparr>pathogen = ''Magnaporthe oryzae'', confidence = min b (dbl (19 / 20))\<rparr>] else []) @
      (if dbl (1 / 2) < g
       then [\<lparr>pathogen = ''Rhizoctonia solani'', confidence = min g (dbl (19 / 20))\<rparr>] else []) @
      (if dbl (1 / 2) < x
       then [\<lparr>pathogen = ''Xanthomonas oryzae'', confidence = min x (dbl (19 / 20))\<rparr>] else [])"
    by (auto simp: rule_candidates_def Let_def split: bind_splits)
  have 1: "dbl (1 / 2) < b \<Longrightarrow> dbl (3 / 5) \<le> min b (dbl (19 / 20))"
    using score_thresholds(1) [OF sc(1)] m by simp
  have 2: "dbl (1 / 2) < g \<Longrightarrow> dbl (3 / 5) \<le> min g (dbl (19 / 20))"
    using score_thresholds(2) [OF sc(2)] m by simp
  have 3: "dbl (1 / 2) < x \<Longrightarrow> dbl (3 / 5) \<le> min x (dbl (19 / 20))"
    using score_thresholds(3) [OF sc(3)] m by simp
  from assms(2) cs 1 2 3 show ?thesis
    by (auto split: if_splits)
qed

lemma rule_based_prediction_confidence:
  assumes "rule_based_prediction d = Some cs" and "c \<in> set cs"
  shows "dbl (6 / 10) \<le> confidence c \<or> c = \<lparr>pathogen = ''Unknown'', confidence = dbl (3 / 10)\<rparr>"
  using assms
  by (auto simp: rule_based_prediction_def split: bind_splits if_splits
      dest: rule_candidates_confidence)

lemma unknown_risk_level:
  assumes "calculate_risk_level (dbl (3 / 10)) d empty_info = Some r"
  shows "r \<noteq> ''High''"
  using assms
  by (auto simp: calculate_risk_level_def empty_info_def info_truthy_def Let_def fadd_values
      dbl_values split: bind_splits if_splits)

lemma enhance_prediction_high_risk:
  assumes "enhance_prediction c d = Some e"
    and "dbl (6 / 10) \<le> confidence c \<or> c = \<lparr>pathogen = ''Unknown'', confidence = dbl (3 / 10)\<rparr>"
    and "risk_level e = ''High''"
  shows "dbl (6 / 10) \<le> confidence e"
proof (cases "dbl (6 / 10) \<le> confidence c")
  case True
  with enhance_prediction_fields [OF assms(1)] show ?thesis by simp
next
  case False
  with assms(2) have c: "c = \<lparr>pathogen = ''Unknown'', confidence = dbl (3 / 10)\<rparr>" by simp
  have k: "knowledge_get ''Unknown'' = empty_info"
    by (simp add: knowledge_get_def pathogen_knowledge_def)
  from assms(1) have "calculate_risk_level (dbl (3 / 10)) d empty_info = Some (risk_level e)"
    by (auto simp: enhance_prediction_def c k Let_def split: bind_splits)
  from unknown_risk_level [OF this] assms(3) show ?thesis by simp
qed

lemma enhance_all_high_risk:
  "enhance_all cs d = Some es \<Longrightarrow>
   \<forall>c \<in> set cs. dbl (6 / 10) \<le> confidence c \<or> c = \<lparr>pathogen = ''Unknown'', confidence = dbl (3 / 10)\<rparr> \<Longrightarrow>
   \<forall>e \<in> set es. risk_level e = ''High'' \<longrightarrow> dbl (6 / 10) \<le> confidence e"
proof (induction cs arbitrary: es)
  case Nil
  then show ?case by simp
next
  case (Cons c cs)
  from Cons.prems(1) obtain e es' where s: "enhance_prediction c d = Some e"
    "enhance_all cs d = Some es'" "es = e # es'"
    by (auto split: bind_splits)
  from Cons.prems(2) have h: "dbl (6 / 10) \<le> confidence c \<or> c = \<lparr>pathogen = ''Unknown'', confidence = dbl (3 / 10)\<rparr>"
    by simp
  from Cons.IH [OF s(2)] Cons.prems(2)
  have "\<forall>e \<in> set es'. risk_level e = ''High'' \<longrightarrow> dbl (6 / 10) \<le> confidence e"
    by simp
  with enhance_prediction_high_risk [OF s(1) h] s(3) show ?case
    by auto
qed

lemma predict_high_risk_confidence:
  assumes "e \<in> set (predict d)" and "risk_level e = ''High''"
  shows "dbl (6 / 10) \<le> confidence e"
proof (cases "predict_body d")
  case None
  with assms show ?thesis
    by (simp add: predict_def fallback_prediction_def)
next
  case (Some es)
  then obtain cs where cs: "rule_based_prediction d = Some cs" "enhance_all cs d = Some es"
    by (auto simp: predict_body_def split: bind_splits)
  from rule_based_prediction_confidence [OF cs(1)]
  have "\<forall>c \<in> set cs. dbl (6 / 10) \<le> confidence c \<or> c = \<lparr>pathogen = ''Unknown'', confidence = dbl (3 / 10)\<rparr>"
    by blast
  from enhance_all_high_risk [OF cs(2) this] assms Some show ?thesis
    by (simp add: predict_def)
qed

section \<open>The claims\<close>

text \<open>
  C1. \<open>predict\<close> is total: it returns a list for every observation, and the list is never
  empty. When scoring raises, or the enhancement of a candidate raises, the result is
  exactly the one fallback prediction: pathogen \<open>Unknown Pathogen\<close>, confidence 0.3, risk
  \<open>Medium\<close>, action \<open>Laboratory Analysis Needed\<close>, the four generic
  recommendations, no favorable conditions and no typical symptoms.
\<close>

theorem predict_fallback_on_failure:
  "predict d \<noteq> [] \<and>
   (rule_based_prediction d = None \<or>
    (\<exists>cs c. rule_based_prediction d = Some cs \<and> c \<in> set cs \<and> enhance_prediction c d = None)
    \<longrightarrow> predict d =
          [\<lparr>pathogen = ''Unknown Pathogen'',
            confidence = dbl (3 / 10),
            common_name = ''Unknown Disease'',
            pathogen_type = ''Unknown'',
            risk_level = ''Medium'',
            action = ''Laboratory Analysis Needed'',
            recommendations =
              [''Submit sample for laboratory analysis'',
               ''Monitor field conditions closely'',
               ''Apply general fungicide as precaution'',
               ''Consult agricultural extension officer''],
            favorable_conditions =
              \<lparr>fc_temperature = None, fc_humidity = None, fc_rainfall = None\<rparr>,
            typical_symptoms = []\<rparr>])"
proof -
  have "predict_body d = None"
    if "rule_based_prediction d = None \<or>
        (\<exists>cs c. rule_based_prediction d = Some cs \<and> c \<in> set cs \<and> enhance_prediction c d = None)"
    using that by (auto simp: predict_body_def enhance_all_None)
  then show ?thesis
    using predict_shape [of d]
    by (auto simp: predict_def fallback_prediction_def empty_conditions_def)
qed

theorem predict_fallback_on_failure_witness:
  "rule_based_prediction ill_typed_temperature = None \<and>
   length (predict ill_typed_temperature) = 1 \<and>
   map pathogen (predict ill_typed_temperature) = [''Unknown Pathogen''] \<and>
   map action (predict ill_typed_temperature) = [''Laboratory Analysis Needed''] \<and>
   rule_based_prediction ill_typed_severity =
     Some [\<lparr>pathogen = ''Unknown'', confidence = dbl (3 / 10)\<rparr>] \<and>
   enhance_prediction \<lparr>pathogen = ''Unknown'', confidence = dbl (3 / 10)\<rparr>
     ill_typed_severity = None \<and>
   map pathogen (predict ill_typed_severity) = [''Unknown Pathogen'']"
proof -
  have a: "rule_based_prediction ill_typed_temperature = None"
    by code_simp
  have b: "rule_based_prediction ill_typed_severity =
     Some [\<lparr>pathogen = ''Unknown'', confidence = dbl (3 / 10)\<rparr>]"
    by code_simp
  have c: "enhance_prediction \<lparr>pathogen = ''Unknown'', confidence = dbl (3 / 10)\<rparr>
     ill_typed_severity = None"
    by code_simp
  show ?thesis
    using a b c predict_fallback_on_failure [of ill_typed_temperature]
      predict_fallback_on_failure [of ill_typed_severity]
    by auto
qed

text \<open>
  C2. For a well-formed observation, each of the three scoring blocks computes the float
  sum of the weights of its rules that hold (0.4 for a matching symptom, 0.2 for each
  other condition), in rule order. A pathogen is among the candidates of the rules
  exactly when its raw score is strictly above 0.5, with confidence
  \<open>min score 0.95\<close>. The candidates are in the order Magnaporthe, Rhizoctonia,
  Xanthomonas, and \<open>predict\<close> returns them in that order, not sorted by confidence.
\<close>

theorem rule_scoring_candidates:
  assumes "wf_observation d"
  shows "blast_score d = Some (raw_score magnaporthe_rules d) \<and>
         blight_score d = Some (raw_score rhizoctonia_rules d) \<and>
         bacterial_score d = Some (raw_score xanthomonas_rules d) \<and>
         rule_candidates d = Some (spec_candidates d) \<and>
         (\<forall>(name, rs) \<in> set rule_table.
            ((\<exists>c \<in> set (spec_candidates d). pathogen c = name) \<longleftrightarrow> dbl (5 / 10) < raw_score rs d) \<and>
            (\<forall>c \<in> set (spec_candidates d).
               pathogen c = name \<longrightarrow> confidence c = min (raw_score rs d) (dbl (95 / 100)))) \<and>
         map pathogen (spec_candidates d) =
           filter (\<lambda>n. n \<in> pathogen ` set (spec_candidates d))
             [''Magnaporthe oryzae'', ''Rhizoctonia solani'', ''Xanthomonas oryzae''] \<and>
         (spec_candidates d \<noteq> [] \<longrightarrow>
            map pathogen (predict d) = map pathogen (spec_candidates d) \<and>
            map confidence (predict d) = map confidence (spec_candidates d))"
proof -
  have a: "\<forall>(name, rs) \<in> set rule_table.
            ((\<exists>c \<in> set (spec_candidates d). pathogen c = name) \<longleftrightarrow> dbl (5 / 10) < raw_score rs d) \<and>
            (\<forall>c \<in> set (spec_candidates d).
               pathogen c = name \<longrightarrow> confidence c = min (raw_score rs d) (dbl (95 / 100)))"
    by (simp add: spec_candidates_def rule_table_def)
  have b: "map pathogen (spec_candidates d) =
           filter (\<lambda>n. n \<in> pathogen ` set (spec_candidates d))
             [''Magnaporthe oryzae'', ''Rhizoctonia solani'', ''Xanthomonas oryzae'']"
    by (simp add: spec_candidates_def rule_table_def)
  show ?thesis
    using a b blast_score_wf [OF assms] blight_score_wf [OF assms] bacterial_score_wf [OF assms]
      rule_candidates_wf [OF assms] predict_wf_candidates [OF assms]
    by blast
qed

theorem rule_scoring_candidates_witness:
  "wf_observation two_candidates_observation \<and>
   rule_candidates two_candidates_observation =
     Some [\<lparr>pathogen = ''Magnaporthe oryzae'', confidence = 1351079888211149 / 2251799813685248\<rparr>,
           \<lparr>pathogen = ''Xanthomonas oryzae'', confidence = 4278419646001971 / 4503599627370496\<rparr>] \<and>
   map pathogen (predict two_candidates_observation) =
     [''Magnaporthe oryzae'', ''Xanthomonas oryzae''] \<and>
   map confidence (predict two_candidates_observation) =
     [1351079888211149 / 2251799813685248, 4278419646001971 / 4503599627370496]"
proof -
  have h: "wf_observation two_candidates_observation"
    by code_simp
  have s: "spec_candidates two_candidates_observation =
          [\<lparr>pathogen = ''Magnaporthe oryzae'', confidence = 1351079888211149 / 2251799813685248\<rparr>,
           \<lparr>pathogen = ''Xanthomonas oryzae'', confidence = 4278419646001971 / 4503599627370496\<rparr>]"
    by code_simp
  show ?thesis
    using h s rule_scoring_candidates [OF h] by simp
qed

text \<open>
  C3. For a well-formed observation on which none of the three raw scores is above 0.5,
  \<open>predict\<close> returns exactly one prediction: Magnaporthe oryzae at confidence 0.6 when
  the symptom list is not empty, and \<open>Unknown\<close> at confidence 0.3 when it is empty.
\<close>

theorem predict_no_candidate_fallback:
  assumes "wf_observation d"
    and "blast_score d = Some b" and "b \<le> dbl (5 / 10)"
    and "blight_score d = Some s" and "s \<le> dbl (5 / 10)"
    and "bacterial_score d = Some x" and "x \<le> dbl (5 / 10)"
  shows "\<exists>e. predict d = [e] \<and>
           (obs_symptoms d \<noteq> [] \<longrightarrow>
              pathogen e = ''Magnaporthe oryzae'' \<and> confidence e = dbl (6 / 10)) \<and>
           (obs_symptoms d = [] \<longrightarrow>
              pathogen e = ''Unknown'' \<and> confidence e = dbl (3 / 10))"
proof -
  let ?c = "if obs_symptoms d \<noteq> []
            then \<lparr>pathogen = ''Magnaporthe oryzae'', confidence = dbl (6 / 10)\<rparr>
            else \<lparr>pathogen = ''Unknown'', confidence = dbl (3 / 10)\<rparr>"
  have "rule_candidates d = Some []"
    using assms(2-7) by (simp add: rule_candidates_def Let_def)
  then have rb: "rule_based_prediction d = Some [?c]"
    by (simp add: rule_based_prediction_def symptoms_truthy_wf [OF assms(1)])
  from enhance_prediction_wf [OF assms(1), of ?c] obtain e where e: "enhance_prediction ?c d = Some e"
    by blast
  then have "predict d = [e]"
    by (simp add: predict_def predict_body_def rb)
  with enhance_prediction_fields [OF e] show ?thesis
    by (cases "obs_symptoms d = []") simp_all
qed

theorem predict_no_candidate_fallback_witness:
  "wf_observation unmatched_symptom_observation \<and>
   blast_score unmatched_symptom_observation = Some (dbl (2 / 10)) \<and>
   blight_score unmatched_symptom_observation = Some (dbl (4 / 10)) \<and>
   bacterial_score unmatched_symptom_observation = Some (dbl (4 / 10)) \<and>
   dbl (4 / 10) \<le> dbl (5 / 10) \<and>
   obs_symptoms unmatched_symptom_observation \<noteq> [] \<and>
   map pathogen (predict unmatched_symptom_observation) = [''Magnaporthe oryzae''] \<and>
   map confidence (predict unmatched_symptom_observation) = [dbl (6 / 10)] \<and>
   wf_observation Map.empty \<and>
   obs_symptoms Map.empty = [] \<and>
   map pathogen (predict Map.empty) = [''Unknown''] \<and>
   map confidence (predict Map.empty) = [dbl (3 / 10)]"
proof -
  have w: "wf_observation unmatched_symptom_observation" "wf_observation Map.empty"
    by code_simp+
  have s: "blast_score unmatched_symptom_observation = Some (dbl (2 / 10))"
    "blight_score unmatched_symptom_observation = Some (dbl (4 / 10))"
    "bacterial_score unmatched_symptom_observation = Some (dbl (4 / 10))"
    "blast_score Map.empty = Some (dbl (2 / 10))"
    "blight_score Map.empty = Some (dbl (4 / 10))"
    "bacterial_score Map.empty = Some (dbl (4 / 10))"
    by code_simp+
  have le: "dbl (2 / 10) \<le> dbl (5 / 10)" "dbl (4 / 10) \<le> dbl (5 / 10)"
    by (simp_all add: dbl_values)
  have o: "obs_symptoms unmatched_symptom_observation \<noteq> []" "obs_symptoms Map.empty = []"
    by code_simp+
  from predict_no_candidate_fallback [OF w(1) s(1) le(1) s(2) le(2) s(3) le(2)] o(1)
  have 1: "map pathogen (predict unmatched_symptom_observation) = [''Magnaporthe oryzae''] \<and>
           map confidence (predict unmatched_symptom_observation) = [dbl (6 / 10)]"
    by auto
  from predict_no_candidate_fallback [OF w(2) s(4) le(1) s(5) le(2) s(6) le(2)] o(2)
  have 2: "map pathogen (predict Map.empty) = [''Unknown''] \<and>
           map confidence (predict Map.empty) = [dbl (3 / 10)]"
    by auto
  show ?thesis
    using w s(1-3) le o 1 2 by simp
qed



text \<open>
  C5. For a well-formed observation the recommendations are the first five entries of:
  the high-severity notice when severity is at least 7, then the management actions of
  the profile in order (none for an unknown profile), then the grain-protection advice
  when the growth stage is Flowering or Grain filling, then the ventilation advice when
  humidity is at least 85. Whatever the input, a returned list has at most five entries,
  and so has every prediction of \<open>predict\<close>.
\<close>

theorem recommendations_assembly:
  "(wf_observation d \<longrightarrow>
      get_management_recommendations name d info = Some (spec_recommendations d info)) \<and>
   (\<forall>recs. get_management_recommendations name d info = Some recs \<longrightarrow> length recs \<le> 5) \<and>
   length (spec_recommendations d info) \<le> 5 \<and>
   kb_management (knowledge_get ''Unknown'') = None \<and>
   (\<forall>e \<in> set (predict d). length (recommendations e) \<le> 5)"
proof -
  have "kb_management (knowledge_get ''Unknown'') = None"
    by (simp add: knowledge_get_def pathogen_knowledge_def empty_info_def)
  moreover have "length (spec_recommendations d info) \<le> 5"
    by (simp only: spec_recommendations_def length_take min.cobounded2)
  ultimately show ?thesis
    using get_management_recommendations_wf [of d name info]
      get_management_recommendations_length [of name d info] predict_recommendations [of d]
    by blast
qed

theorem recommendations_assembly_witness:
  "wf_observation severe_humid_observation \<and>
   get_management_recommendations ''Magnaporthe oryzae'' severe_humid_observation magnaporthe_info =
     Some [''Immediate intervention required due to high severity'',
           ''Use resistant varieties'',
           ''Apply fungicides at early growth stages'',
           ''Improve field drainage'',
           ''Balanced fertilization''] \<and>
   get_management_recommendations ''Unknown'' severe_humid_observation (knowledge_get ''Unknown'') =
     Some [''Immediate intervention required due to high severity'',
           ''Apply protective measures to prevent grain infection'',
           ''Improve field ventilation to reduce humidity'']"
proof -
  have w: "wf_observation severe_humid_observation"
    by code_simp
  have s: "spec_recommendations severe_humid_observation magnaporthe_info =
     [''Immediate intervention required due to high severity'',
           ''Use resistant varieties'',
           ''Apply fungicides at early growth stages'',
           ''Improve field drainage'',
           ''Balanced fertilization'']"
    "spec_recommendations severe_humid_observation (knowledge_get ''Unknown'') =
     [''Immediate intervention required due to high severity'',
           ''Apply protective measures to prevent grain infection'',
           ''Improve field ventilation to reduce humidity'']"
    by code_simp+
  show ?thesis
    using w s
      recommendations_assembly [of severe_humid_observation "''Magnaporthe oryzae''" magnaporthe_info]
      recommendations_assembly [of severe_humid_observation "''Unknown''" "knowledge_get ''Unknown''"]
    by simp
qed



text \<open>
  C7. For a row of statistics with mean \<open>m\<close>, the priority is \<open>High\<close> with the message
  ``Urgent need ...'' when \<open>m < 4\<close>, \<open>Medium\<close> with ``Improve resistance levels ...''
  when \<open>4 \<le> m < 6\<close>, and \<open>Low\<close> with ``Maintain current resistance levels ...'' when
  \<open>6 \<le> m\<close>. The variability suffix is appended exactly when the standard deviation is
  above 2. An undefined standard deviation gives no suffix and the reported variability
  0. Every row of the aggregate yields its recommendation in the result.
\<close>

theorem breeding_priority_rule:
  assumes "row_mean s = Finite m"
  shows "(m < 4 \<longrightarrow>
            priority (breeding_row round2 s) = ''High'' \<and>
            recommendation (breeding_row round2 s) =
              ''Urgent need to develop varieties with higher resistance to '' @ row_pathogen s
                @ variability_suffix (row_std s)) \<and>
         (4 \<le> m \<and> m < 6 \<longrightarrow>
            priority (breeding_row round2 s) = ''Medium'' \<and>
            recommendation (breeding_row round2 s) =
              ''Improve resistance levels to '' @ row_pathogen s @ '' through selective breeding''
                @ variability_suffix (row_std s)) \<and>
         (6 \<le> m \<longrightarrow>
            priority (breeding_row round2 s) = ''Low'' \<and>
            recommendation (breeding_row round2 s) =
              ''Maintain current resistance levels to '' @ row_pathogen s
                @ variability_suffix (row_std s)) \<and>
         (row_std s = NaN \<longrightarrow>
            variability (breeding_row round2 s) = Finite 0 \<and> variability_suffix (row_std s) = []) \<and>
         (\<forall>v. row_std s = Finite v \<longrightarrow>
            variability (breeding_row round2 s) = Finite (round2 v) \<and>
            (variability_suffix (row_std s) = '' - Focus on reducing variability between varieties''
               \<longleftrightarrow> 2 < v)) \<and>
         br_pathogen (breeding_row round2 s) = row_pathogen s \<and>
         (\<forall>data rows. \<not> df_empty data \<and> df_groupby_agg data = Some rows \<and> s \<in> set rows \<longrightarrow>
            breeding_row round2 s \<in> set (get_breeding_recommendations round2 data))"
proof -
  have a: "\<forall>data rows. \<not> df_empty data \<and> df_groupby_agg data = Some rows \<and> s \<in> set rows \<longrightarrow>
            breeding_row round2 s \<in> set (get_breeding_recommendations round2 data)"
    by (auto simp: get_breeding_recommendations_rows)
  have b: "row_std s = NaN \<longrightarrow>
            variability (breeding_row round2 s) = Finite 0 \<and> variability_suffix (row_std s) = []"
    by (simp add: breeding_row_def variability_suffix_def notna_def Let_def split: prod.splits)
  have c: "\<forall>v. row_std s = Finite v \<longrightarrow>
            variability (breeding_row round2 s) = Finite (round2 v) \<and>
            (variability_suffix (row_std s) = '' - Focus on reducing variability between varieties''
               \<longleftrightarrow> 2 < v)"
    by (simp add: breeding_row_def variability_suffix_def notna_def np_round_def Let_def
        split: prod.splits)
  have d: "br_pathogen (breeding_row round2 s) = row_pathogen s"
    by (simp add: breeding_row_def Let_def split: prod.splits)
  have e: "m < 4 \<longrightarrow>
            priority (breeding_row round2 s) = ''High'' \<and>
            recommendation (breeding_row round2 s) =
              ''Urgent need to develop varieties with higher resistance to '' @ row_pathogen s
                @ variability_suffix (row_std s)"
    using assms
    by (simp add: breeding_row_def variability_suffix_def np_lt_def np_gt_def Let_def
        split: npfloat.splits)
  have f: "4 \<le> m \<and> m < 6 \<longrightarrow>
            priority (breeding_row round2 s) = ''Medium'' \<and>
            recommendation (breeding_row round2 s) =
              ''Improve resistance levels to '' @ row_pathogen s @ '' through selective breeding''
                @ variability_suffix (row_std s)"
    using assms
    by (simp add: breeding_row_def variability_suffix_def np_lt_def np_gt_def Let_def
        split: npfloat.splits)
  have g: "6 \<le> m \<longrightarrow>
            priority (breeding_row round2 s) = ''Low'' \<and>
            recommendation (breeding_row round2 s) =
              ''Maintain current resistance levels to '' @ row_pathogen s
                @ variability_suffix (row_std s)"
    using assms
    by (simp add: breeding_row_def variability_suffix_def np_lt_def np_gt_def Let_def
        split: npfloat.splits)
  from a b c d e f g show ?thesis
    by blast
qed

theorem breeding_priority_rule_witness:
  "row_mean (stat ''A'' 3 (Finite (5 / 2)) 4) = Finite 3 \<and> (3 :: rat) < 4 \<and>
   priority (breeding_row (\<lambda>x. x) (stat ''A'' 3 (Finite (5 / 2)) 4)) = ''High'' \<and>
   recommendation (breeding_row (\<lambda>x. x) (stat ''A'' 3 (Finite (5 / 2)) 4)) =
     ''Urgent need to develop varieties with higher resistance to A - Focus on reducing variability between varieties'' \<and>
   row_mean (stat ''B'' 5 NaN 1) = Finite 5 \<and> row_std (stat ''B'' 5 NaN 1) = NaN \<and>
   priority (breeding_row (\<lambda>x. x) (stat ''B'' 5 NaN 1)) = ''Medium'' \<and>
   recommendation (breeding_row (\<lambda>x. x) (stat ''B'' 5 NaN 1)) =
     ''Improve resistance levels to B through selective breeding'' \<and>
   variability (breeding_row (\<lambda>x. x) (stat ''B'' 5 NaN 1)) = Finite 0 \<and>
   breeding_row (\<lambda>x. x) (stat ''B'' 5 NaN 1) \<in> set (get_breeding_recommendations (\<lambda>x. x) example_frame)"
proof -
  have a: "row_mean (stat ''A'' 3 (Finite (5 / 2)) 4) = Finite 3"
    "row_std (stat ''A'' 3 (Finite (5 / 2)) 4) = Finite (5 / 2)"
    "row_pathogen (stat ''A'' 3 (Finite (5 / 2)) 4) = ''A''"
    by (simp_all add: stat_def)
  have b: "row_mean (stat ''B'' 5 NaN 1) = Finite 5" "row_std (stat ''B'' 5 NaN 1) = NaN"
    "row_pathogen (stat ''B'' 5 NaN 1) = ''B''"
    by (simp_all add: stat_def)
  have f: "\<not> df_empty example_frame \<and>
           df_groupby_agg example_frame =
             Some [stat ''C'' 8 (Finite 1) 4, stat ''A'' 3 (Finite (5 / 2)) 4, stat ''B'' 5 NaN 1,
                   stat ''D'' 7 (Finite 0) 2, stat ''E'' 2 NaN 1]"
    by (simp add: example_frame_def)
  have s: "variability_suffix (Finite (5 / 2)) = '' - Focus on reducing variability between varieties''"
    "variability_suffix NaN = []"
    by (simp_all add: variability_suffix_def)
  show ?thesis
    using a b s f breeding_priority_rule [OF a(1), of "\<lambda>x. x"] breeding_priority_rule [OF b(1), of "\<lambda>x. x"]
    by auto
qed



text \<open>
  C9. For a candidate whose pathogen is not a key of the knowledge base the lookup gives
  the empty profile. Its enhanced prediction, which exists for every well-formed
  observation, has pathogen type \<open>Unknown\<close>, no favorable conditions, no typical symptoms,
  and the pathogen name itself as the common name (the default of the lookup).
\<close>

theorem unknown_pathogen_default_profile:
  assumes "pathogen_knowledge (pathogen c) = None"
  shows "knowledge_get (pathogen c) =
           \<lparr>kb_common_name = None, kb_type = None, kb_symptoms = None,
            kb_favorable_conditions = None, kb_severity_factors = None, kb_management = None\<rparr> \<and>
         (wf_observation d \<longrightarrow> enhance_prediction c d \<noteq> None) \<and>
         (\<forall>e. enhance_prediction c d = Some e \<longrightarrow>
            pathogen_type e = ''Unknown'' \<and>
            favorable_conditions e =
              \<lparr>fc_temperature = None, fc_humidity = None, fc_rainfall = None\<rparr> \<and>
            typical_symptoms e = [] \<and>
            common_name e = pathogen c)"
proof -
  have k: "knowledge_get (pathogen c) = empty_info"
    using assms by (simp add: knowledge_get_def)
  have "\<forall>e. enhance_prediction c d = Some e \<longrightarrow>
            pathogen_type e = ''Unknown'' \<and>
            favorable_conditions e =
              \<lparr>fc_temperature = None, fc_humidity = None, fc_rainfall = None\<rparr> \<and>
            typical_symptoms e = [] \<and>
            common_name e = pathogen c"
    by (auto simp: enhance_prediction_def k empty_info_def empty_conditions_def Let_def
        split: bind_splits)
  then show ?thesis
    using k enhance_prediction_wf [of d c] by (simp add: empty_info_def)
qed

theorem unknown_pathogen_default_profile_witness:
  "pathogen_knowledge (pathogen \<lparr>pathogen = ''Unknown'', confidence = dbl (3 / 10)\<rparr>) = None \<and>
   wf_observation Map.empty \<and>
   enhance_prediction \<lparr>pathogen = ''Unknown'', confidence = dbl (3 / 10)\<rparr> Map.empty =
     Some \<lparr>pathogen = ''Unknown'', confidence = dbl (3 / 10), common_name = ''Unknown'',
           pathogen_type = ''Unknown'', risk_level = ''Low'', action = ''Monitor & Observe'',
           recommendations = [],
           favorable_conditions = \<lparr>fc_temperature = None, fc_humidity = None, fc_rainfall = None\<rparr>,
           typical_symptoms = []\<rparr>"
proof -
  have k: "pathogen_knowledge (pathogen \<lparr>pathogen = ''Unknown'', confidence = dbl (3 / 10)\<rparr>) = None"
    by (simp add: pathogen_knowledge_def)
  have w: "wf_observation Map.empty"
    by code_simp
  from unknown_pathogen_default_profile [OF k, of Map.empty] w
  obtain e where e: "enhance_prediction \<lparr>pathogen = ''Unknown'', confidence = dbl (3 / 10)\<rparr> Map.empty = Some e"
    "pathogen_type e = ''Unknown''" "typical_symptoms e = []"
    by auto
  have "enhance_prediction \<lparr>pathogen = ''Unknown'', confidence = dbl (3 / 10)\<rparr> Map.empty =
     Some \<lparr>pathogen = ''Unknown'', confidence = dbl (3 / 10), common_name = ''Unknown'',
           pathogen_type = ''Unknown'', risk_level = ''Low'', action = ''Monitor & Observe'',
           recommendations = [],
           favorable_conditions = \<lparr>fc_temperature = None, fc_humidity = None, fc_rainfall = None\<rparr>,
           typical_symptoms = []\<rparr>"
    by code_simp
  with k w e show ?thesis
    by simp
qed

text \<open>
  C10. For every observation \<open>predict\<close> returns at most three predictions, and their
  pathogen names are pairwise distinct.
\<close>

theorem predict_at_most_three_distinct:
  "length (predict d) \<le> 3 \<and> distinct (map pathogen (predict d))"
  using predict_shape [of d] by simp

theorem predict_at_most_three_distinct_witness:
  "length (predict two_candidates_observation) \<le> 3 \<and>
   distinct (map pathogen (predict two_candidates_observation)) \<and>
   map pathogen (predict two_candidates_observation) = [''Magnaporthe oryzae'', ''Xanthomonas oryzae'']"
proof -
  have "map pathogen (predict two_candidates_observation) = [''Magnaporthe oryzae'', ''Xanthomonas oryzae'']"
    by code_simp
  then show ?thesis
    using predict_at_most_three_distinct [of two_candidates_observation] by simp
qed

end
